theory Spec2Isabelle
  imports Complex_Main
begin

section \<open>Data model (SmartCityContext.tsx)\<close>

text \<open>
  TypeScript \<open>number\<close> values that arrive on the wire are modelled as \<open>real\<close>;
  counters that the code itself produces with \<open>Math.floor\<close> and \<open>+ 1\<close> are \<open>int\<close>.
  An optional field (\<open>f?: T\<close>) is a \<open>T option\<close>, \<open>None\<close> standing for \<open>undefined\<close>.
\<close>

record streetlight =
  id_light :: string
  brightness :: real
  status_light :: string

datatype severity = Critical | High | Medium | Low

datatype alert_status = Active | Resolved | Investigating

record alert =
  id_alert :: string
  type_alert :: string
  severity :: severity
  location :: string
  coordinates :: "(real \<times> real) option"
  description :: "string option"
  timestamp :: string
  status :: "alert_status option"
  responders :: "int option"

text \<open>
  \<open>Partial<Alert>\<close>: every key may be missing (\<open>None\<close>). For the keys that are optional
  in \<open>Alert\<close> itself a present key may carry \<open>undefined\<close> (\<open>Some None\<close>).
\<close>

record alert_updates =
  u_id :: "string option"
  u_type :: "string option"
  u_severity :: "severity option"
  u_location :: "string option"
  u_coordinates :: "(real \<times> real) option option"
  u_description :: "string option option"
  u_timestamp :: "string option"
  u_status :: "alert_status option option"
  u_responders :: "int option option"

definition no_updates :: alert_updates where
  "no_updates = \<lparr> u_id = None, u_type = None, u_severity = None, u_location = None,
     u_coordinates = None, u_description = None, u_timestamp = None, u_status = None,
     u_responders = None \<rparr>"

record metrics_t =
  active_power :: real
  baseline_100 :: real
  baseline_70 :: real
  savings_vs_100 :: real
  savings_vs_70 :: real
  brightness_dist :: "real list"
  occupancy :: real
  pedestrians :: real
  vehicles :: real
  sim_time :: real

record power_point =
  time_p :: string
  active :: real
  base100 :: real
  base70 :: real

record savings_point =
  time_s :: string
  sav100 :: real
  sav70 :: real

record occupancy_point =
  x_pt :: real
  y_pt :: real

datatype diagnostic = Warn string | Error string

text \<open>
  The provider's state together with the local state of the two components that consume
  the stream and the browser console, which receives the diagnostics. \<open>Dashboard\<close> holds
  the three history arrays and \<open>aiLatency\<close>; its \<open>onmessage\<close> handler reads the \<open>alerts\<close>
  value that its effect closed over when it last ran (\<open>alerts_closure\<close>).
  \<open>EmergencyAlerts\<close> holds \<open>alertsRef\<close>, created by \<open>useRef(alerts)\<close> and written only by
  the effect \<open>alertsRef.current = alerts\<close>.
\<close>

record dashboard =
  streetlights :: "streetlight list"
  alerts :: "alert list"
  energySavings :: real
  monitoredZones :: real
  metrics :: metrics_t
  powerHistory :: "power_point list"
  savingsHistory :: "savings_point list"
  occupancyHistory :: "occupancy_point list"
  aiLatency :: real
  alerts_closure :: "alert list"
  alertsRef :: "alert list"
  console :: "diagnostic list"

definition initial_metrics :: metrics_t where
  "initial_metrics = \<lparr> active_power = 0, baseline_100 = 0, baseline_70 = 0,
     savings_vs_100 = 0, savings_vs_70 = 0, brightness_dist = [], occupancy = 0,
     pedestrians = 0, vehicles = 0, sim_time = 0 \<rparr>"

definition initial :: dashboard where
  "initial = \<lparr> streetlights = [], alerts = [], energySavings = 73, monitoredZones = 23,
     metrics = initial_metrics, powerHistory = [], savingsHistory = [],
     occupancyHistory = [], aiLatency = 47, alerts_closure = [], alertsRef = [],
     console = [] \<rparr>"

section \<open>Provider operations (SmartCityContext.tsx)\<close>

text \<open>\<open>xs.slice(0, n)\<close> for a non-negative literal \<open>n\<close>.\<close>

definition slice0 :: "nat \<Rightarrow> 'a list \<Rightarrow> 'a list" where
  "slice0 n xs = take n xs"

text \<open>
  \<open>xs.slice(-n)\<close>: the start index is \<open>max (length - n) 0\<close>; \<open>-0\<close> is \<open>0\<close>, so
  \<open>slice(-0)\<close> is the whole array.
\<close>

definition slice_last :: "nat \<Rightarrow> 'a list \<Rightarrow> 'a list" where
  "slice_last n xs = (if n = 0 then xs else drop (length xs - n) xs)"

text \<open>\<open>setAlerts(prev => [newAlert, ...prev].slice(0, 20))\<close>\<close>

definition addAlert :: "alert \<Rightarrow> alert list \<Rightarrow> alert list" where
  "addAlert newAlert prev = slice0 20 (newAlert # prev)"

text \<open>\<open>{ ...alert, ...updates }\<close>: a key of \<open>updates\<close> that is present wins.\<close>

definition spread :: "alert \<Rightarrow> alert_updates \<Rightarrow> alert" where
  "spread a u = \<lparr>
     id_alert = (case u_id u of None \<Rightarrow> id_alert a | Some v \<Rightarrow> v),
     type_alert = (case u_type u of None \<Rightarrow> type_alert a | Some v \<Rightarrow> v),
     severity = (case u_severity u of None \<Rightarrow> severity a | Some v \<Rightarrow> v),
     location = (case u_location u of None \<Rightarrow> location a | Some v \<Rightarrow> v),
     coordinates = (case u_coordinates u of None \<Rightarrow> coordinates a | Some v \<Rightarrow> v),
     description = (case u_description u of None \<Rightarrow> description a | Some v \<Rightarrow> v),
     timestamp = (case u_timestamp u of None \<Rightarrow> timestamp a | Some v \<Rightarrow> v),
     status = (case u_status u of None \<Rightarrow> status a | Some v \<Rightarrow> v),
     responders = (case u_responders u of None \<Rightarrow> responders a | Some v \<Rightarrow> v) \<rparr>"

text \<open>\<open>prev.map(alert => alert.id === alertId ? { ...alert, ...updates } : alert)\<close>\<close>

definition updateAlert :: "string \<Rightarrow> alert_updates \<Rightarrow> alert list \<Rightarrow> alert list" where
  "updateAlert alertId updates prev =
     map (\<lambda>a. if id_alert a = alertId then spread a updates else a) prev"

text \<open>
  \<open>alerts.filter(a => a.status === 'active' || a.status === 'investigating').length\<close>
\<close>

definition activeIncidents :: "alert list \<Rightarrow> nat" where
  "activeIncidents as =
     length (filter (\<lambda>a. status a = Some Active \<or> status a = Some Investigating) as)"

definition setStreetlights :: "streetlight list \<Rightarrow> dashboard \<Rightarrow> dashboard" where
  "setStreetlights lights s = s\<lparr>streetlights := lights\<rparr>"

definition setMetrics :: "metrics_t \<Rightarrow> dashboard \<Rightarrow> dashboard" where
  "setMetrics m s = s\<lparr>metrics := m\<rparr>"

definition setEnergySavings :: "real \<Rightarrow> dashboard \<Rightarrow> dashboard" where
  "setEnergySavings v s = s\<lparr>energySavings := v\<rparr>"

section \<open>The stream message and the runtime\<close>

text \<open>
  The wire record after \<open>JSON.parse\<close>, with the fields the handlers read. A field that is
  missing (or \<open>null\<close>) is \<open>None\<close>.
\<close>

record message =
  data_prediction :: "string option"
  data_confidence :: "real option"
  data_streetlights :: "streetlight list option"
  data_metrics :: "metrics_t option"

text \<open>
  \<open>JSON.parse(event.data)\<close> either throws a \<open>SyntaxError\<close> (\<open>Malformed\<close>) or yields
  the record.
\<close>

datatype payload = Malformed | Parsed message

datatype exn = SyntaxError

text \<open>
  What a handler reads from the runtime while it runs: \<open>Date.now()\<close>, the two renderings
  of \<open>new Date()\<close>, the values of the successive \<open>Math.random()\<close> calls (each in
  \<open>[0, 1)\<close>), and \<open>Number.prototype.toFixed(1)\<close>.
\<close>

record runtime =
  now :: int
  toISOString :: string
  toLocaleTimeString :: string
  random_location :: real
  random_lat :: real
  random_lng :: real
  random_responders :: real
  random_latency :: real
  toFixed1 :: "real \<Rightarrow> string"

text \<open>Decimal rendering of an integer, as \<open>toString()\<close> and template literals give it.\<close>

definition digit_char :: "nat \<Rightarrow> char" where
  "digit_char d = ''0123456789'' ! d"

fun digits :: "nat \<Rightarrow> string" where
  "digits n = (if n < 10 then [digit_char n] else digits (n div 10) @ [digit_char (n mod 10)])"

declare digits.simps [simp del]

definition toString :: "int \<Rightarrow> string" where
  "toString i = (if i < 0 then CHR ''-'' # digits (nat (- i)) else digits (nat i))"

section \<open>EmergencyAlerts.tsx\<close>

text \<open>The object literal passed to \<open>addAlert\<close> in the \<open>onmessage\<close> handler.\<close>

definition accident_alert :: "runtime \<Rightarrow> real \<Rightarrow> alert" where
  "accident_alert rt conf = \<lparr>
     id_alert = toString (now rt),
     type_alert = ''accident'',
     severity = Critical,
     location = ''Intersection '' @ toString \<lfloor>random_location rt * 100\<rfloor>,
     coordinates = Some (40.7128 + (random_lat rt - 0.5) * 0.1,
                         - 74.0060 + (random_lng rt - 0.5) * 0.1),
     description = Some (''Vehicle collision detected with '' @ toFixed1 rt conf
                         @ ''% confidence.''),
     timestamp = ''Just now'',
     status = Some Active,
     responders = Some (\<lfloor>random_responders rt * 3\<rfloor> + 1) \<rparr>"

text \<open>\<open>alertsRef.current.some(a => a.type === 'accident' && a.status === 'active')\<close>\<close>

definition already :: "alert list \<Rightarrow> bool" where
  "already cur = list_ex (\<lambda>a. type_alert a = ''accident'' \<and> status a = Some Active) cur"

text \<open>
  \<open>eventSource.onmessage\<close> of \<open>EmergencyAlerts\<close>. \<open>cur\<close> is \<open>alertsRef.current\<close>; the
  new alert goes into the state itself (\<open>setAlerts(prev => ...)\<close>). The \<open>catch\<close> logs the
  parse failure and returns.
\<close>

definition alerts_onmessage ::
  "alert list \<Rightarrow> runtime \<Rightarrow> payload \<Rightarrow> dashboard \<Rightarrow> dashboard" where
  "alerts_onmessage cur rt p s =
     (case p of
        Malformed \<Rightarrow> s\<lparr>console := console s @ [Warn ''Failed to parse SSE event'']\<rparr>
      | Parsed d \<Rightarrow>
          if data_prediction d = Some ''Accident'' then
            (case data_confidence d of
               None \<Rightarrow> s
             | Some conf \<Rightarrow>
                 if conf > 90 then
                   if \<not> already cur
                   then s\<lparr>alerts := addAlert (accident_alert rt conf) (alerts s)\<rparr>
                   else s
                 else s)
          else s)"

text \<open>
  The outcome of \<open>fetch('/respond')\<close> followed by \<open>res.json().catch(() => null)\<close>:
  the request is rejected, the body is not JSON (\<open>json\<close> is \<open>null\<close>), or the body parses
  and \<open>json.status\<close> is the given string (\<open>None\<close> when there is no such string).
\<close>

datatype respond_result = Rejected | NotJson | Json "string option"

text \<open>\<open>json && json.status === 'ok'\<close>\<close>

fun acknowledged :: "respond_result \<Rightarrow> bool" where
  "acknowledged (Json (Some st)) = (st = ''ok'')"
| "acknowledged _ = False"

text \<open>
  The ``Send Response'' button of the card rendered for \<open>a\<close>. The optimistic update runs
  before the request is issued; the rest of the handler runs when the request has settled.
\<close>

definition sendResponse_optimistic :: "alert \<Rightarrow> alert list \<Rightarrow> alert list" where
  "sendResponse_optimistic a prev =
     updateAlert (id_alert a)
       (no_updates\<lparr>u_status := Some (Some Investigating),
          u_responders := Some (Some
            ((case responders a of None \<Rightarrow> 0 | Some r \<Rightarrow> if r = 0 then 0 else r) + 1))\<rparr>)
       prev"

definition respond_settled :: "alert \<Rightarrow> respond_result \<Rightarrow> alert list \<Rightarrow> alert list" where
  "respond_settled a res prev =
     (case res of
        Rejected \<Rightarrow> updateAlert (id_alert a) (no_updates\<lparr>u_status := Some (Some Active)\<rparr>) prev
      | _ \<Rightarrow>
          if acknowledged res
          then updateAlert (id_alert a) (no_updates\<lparr>u_status := Some (Some Investigating)\<rparr>) prev
          else updateAlert (id_alert a) (no_updates\<lparr>u_status := Some (Some Active)\<rparr>) prev)"

definition sendResponse :: "alert \<Rightarrow> respond_result \<Rightarrow> alert list \<Rightarrow> alert list" where
  "sendResponse a res prev = respond_settled a res (sendResponse_optimistic a prev)"

text \<open>
  The ``Request Ambulance'' button: no update before the request; the same two outcomes
  after it.
\<close>

definition requestAmbulance :: "alert \<Rightarrow> respond_result \<Rightarrow> alert list \<Rightarrow> alert list" where
  "requestAmbulance a res prev = respond_settled a res prev"

text \<open>The \<open>action\<close> of the request body selects the button.\<close>

datatype action = DispatchAction | AmbulanceAction

fun dispatch :: "action \<Rightarrow> alert \<Rightarrow> respond_result \<Rightarrow> alert list \<Rightarrow> alert list" where
  "dispatch DispatchAction a res prev = sendResponse a res prev"
| "dispatch AmbulanceAction a res prev = requestAmbulance a res prev"

section \<open>Dashboard.tsx\<close>

text \<open>\<open>[...prev, point].slice(-C)\<close>, the append of the three history arrays.\<close>

definition append_point :: "nat \<Rightarrow> 'a \<Rightarrow> 'a list \<Rightarrow> 'a list" where
  "append_point C pt prev = slice_last C (prev @ [pt])"

definition avgBrightness :: "metrics_t \<Rightarrow> real" where
  "avgBrightness m =
     (if length (brightness_dist m) > 0
      then foldl (\<lambda>a b. a + b) 0 (brightness_dist m) / real (length (brightness_dist m))
      else 0)"

text \<open>The three object literals appended for one \<open>data.metrics\<close>.\<close>

definition power_point_of :: "runtime \<times> metrics_t \<Rightarrow> power_point" where
  "power_point_of tm = (case tm of (rt, m) \<Rightarrow>
     \<lparr> time_p = toLocaleTimeString rt, active = active_power m,
       base100 = baseline_100 m, base70 = baseline_70 m \<rparr>)"

definition savings_point_of :: "runtime \<times> metrics_t \<Rightarrow> savings_point" where
  "savings_point_of tm = (case tm of (rt, m) \<Rightarrow>
     \<lparr> time_s = toLocaleTimeString rt, sav100 = savings_vs_100 m,
       sav70 = savings_vs_70 m \<rparr>)"

definition occupancy_point_of :: "runtime \<times> metrics_t \<Rightarrow> occupancy_point" where
  "occupancy_point_of tm = (case tm of (rt, m) \<Rightarrow>
     \<lparr> x_pt = avgBrightness m, y_pt = occupancy m \<rparr>)"

text \<open>The body of \<open>if (data.metrics) { ... }\<close>.\<close>

definition push_metrics :: "runtime \<Rightarrow> metrics_t \<Rightarrow> dashboard \<Rightarrow> dashboard" where
  "push_metrics rt m s =
     (setEnergySavings (savings_vs_100 m) (setMetrics m s))
       \<lparr> powerHistory := append_point 20 (power_point_of (rt, m)) (powerHistory s),
         savingsHistory := append_point 20 (savings_point_of (rt, m)) (savingsHistory s),
         occupancyHistory := append_point 50 (occupancy_point_of (rt, m)) (occupancyHistory s) \<rparr>"

definition detected_alert :: "runtime \<Rightarrow> alert" where
  "detected_alert rt = \<lparr>
     id_alert = toString (now rt),
     type_alert = ''Accident Detected'',
     severity = High,
     location = ''Intersection '' @ toString \<lfloor>random_location rt * 100\<rfloor>,
     coordinates = None,
     description = None,
     timestamp = toISOString rt,
     status = Some Active,
     responders = None \<rparr>"

text \<open>
  \<open>eventSource.onmessage\<close> of \<open>Dashboard\<close>. \<open>cur\<close> is the \<open>alerts\<close> value the effect
  closed over. \<open>JSON.parse\<close> is not guarded here: its exception leaves the handler before
  any setter has run.
\<close>

definition dashboard_onmessage ::
  "alert list \<Rightarrow> runtime \<Rightarrow> payload \<Rightarrow> dashboard \<Rightarrow> exn + dashboard" where
  "dashboard_onmessage cur rt p s =
     (case p of
        Malformed \<Rightarrow> Inl SyntaxError
      | Parsed d \<Rightarrow>
          let s1 = (case data_streetlights d of None \<Rightarrow> s | Some ls \<Rightarrow> setStreetlights ls s);
              s2 = (case data_metrics d of None \<Rightarrow> s1 | Some m \<Rightarrow> push_metrics rt m s1);
              s3 = (if data_prediction d = Some ''Accident''
                      \<and> (case data_confidence d of None \<Rightarrow> False | Some conf \<Rightarrow> conf > 90)
                      \<and> \<not> list_ex (\<lambda>a. type_alert a = ''Accident Detected'') cur
                    then s2\<lparr>alerts := addAlert (detected_alert rt) (alerts s2)\<rparr> else s2)
          in Inr (s3\<lparr>aiLatency := 30 + random_latency rt * 30\<rparr>))"

section \<open>Event sequences\<close>

text \<open>
  What can happen to the store: a stream message reaches one of the two handlers, a
  button of a rendered card is pressed, a pending request settles, \<open>updateAlert\<close> is
  called, or one of the two effects that depend on \<open>alerts\<close> runs after a render. The
  handler of \<open>EmergencyAlerts\<close> tests \<open>alertsRef.current\<close>, which is as old as the last
  run of \<open>AlertsEffect\<close>; the handler of \<open>Dashboard\<close> tests the list it closed over at
  the last run of \<open>DashboardEffect\<close>. An exception that leaves a handler leaves the state
  as it was.
\<close>

datatype event =
    AlertsMessage runtime payload
  | DashboardMessage runtime payload
  | AlertsEffect
  | DashboardEffect
  | SendResponseClicked alert
  | SendResponseSettled alert respond_result
  | AmbulanceSettled alert respond_result
  | Update string alert_updates

fun step :: "dashboard \<Rightarrow> event \<Rightarrow> dashboard" where
  "step s (AlertsMessage rt p) = alerts_onmessage (alertsRef s) rt p s"
| "step s (DashboardMessage rt p) =
     (case dashboard_onmessage (alerts_closure s) rt p s of Inl e \<Rightarrow> s | Inr s' \<Rightarrow> s')"
| "step s AlertsEffect = s\<lparr>alertsRef := alerts s\<rparr>"
| "step s DashboardEffect = s\<lparr>alerts_closure := alerts s\<rparr>"
| "step s (SendResponseClicked a) =
     (if a \<in> set (alerts s) then s\<lparr>alerts := sendResponse_optimistic a (alerts s)\<rparr> else s)"
| "step s (SendResponseSettled a res) = s\<lparr>alerts := respond_settled a res (alerts s)\<rparr>"
| "step s (AmbulanceSettled a res) = s\<lparr>alerts := requestAmbulance a res (alerts s)\<rparr>"
| "step s (Update alertId updates) = s\<lparr>alerts := updateAlert alertId updates (alerts s)\<rparr>"

definition run :: "dashboard \<Rightarrow> event list \<Rightarrow> dashboard" where
  "run s evs = foldl step s evs"





text \<open>The \<open>data.metrics\<close> that an event makes \<open>Dashboard\<close> push, with the runtime read.\<close>

fun metrics_of :: "event \<Rightarrow> (runtime \<times> metrics_t) option" where
  "metrics_of (DashboardMessage rt (Parsed d)) =
     (case data_metrics d of None \<Rightarrow> None | Some m \<Rightarrow> Some (rt, m))"
| "metrics_of _ = None"

definition pushed :: "event list \<Rightarrow> (runtime \<times> metrics_t) list" where
  "pushed evs = List.map_filter metrics_of evs"


text \<open>
  \<open>alert.responders || 0\<close>, read from the alert the card was rendered for.
\<close>

definition seen_responders :: "alert \<Rightarrow> int" where
  "seen_responders a = (case responders a of None \<Rightarrow> 0 | Some r \<Rightarrow> r)"

section \<open>Sample values\<close>

definition a1 :: alert where
  "a1 = \<lparr> id_alert = ''1'', type_alert = ''accident'', severity = Critical,
     location = ''Intersection 7'', coordinates = None, description = None,
     timestamp = ''Just now'', status = Some Active, responders = Some 2 \<rparr>"

definition a2 :: alert where
  "a2 = \<lparr> id_alert = ''2'', type_alert = ''fire'', severity = High,
     location = ''Intersection 9'', coordinates = None, description = None,
     timestamp = ''Just now'', status = None, responders = None \<rparr>"

definition resolve :: alert_updates where
  "resolve = no_updates\<lparr>u_status := Some (Some Resolved)\<rparr>"

definition rt0 :: runtime where
  "rt0 = \<lparr> now = 1700000000000, toISOString = ''2023-11-14T22:13:20.000Z'',
     toLocaleTimeString = ''22:13:20'', random_location = 0.42, random_lat = 0.5,
     random_lng = 0.5, random_responders = 0.5, random_latency = 0.5,
     toFixed1 = (\<lambda>c. ''95.0'') \<rparr>"

definition accident95 :: message where
  "accident95 = \<lparr> data_prediction = Some ''Accident'', data_confidence = Some 95,
     data_streetlights = None, data_metrics = None \<rparr>"


definition overbright :: message where
  "overbright = \<lparr> data_prediction = None, data_confidence = None,
     data_streetlights =
       Some [\<lparr> id_light = ''L1'', brightness = 150, status_light = ''active'' \<rparr>],
     data_metrics =
       Some (initial_metrics\<lparr>savings_vs_100 := 250, brightness_dist := [150]\<rparr>) \<rparr>"

definition lights2 :: "streetlight list" where
  "lights2 = [\<lparr> id_light = ''L1'', brightness = 80, status_light = ''active'' \<rparr>,
              \<lparr> id_light = ''L2'', brightness = 35, status_light = ''inactive'' \<rparr>]"

definition snapshot2 :: message where
  "snapshot2 = \<lparr> data_prediction = None, data_confidence = None,
     data_streetlights = Some lights2,
     data_metrics = Some (initial_metrics\<lparr>savings_vs_100 := 42\<rparr>) \<rparr>"



definition metrics_msg :: "nat \<Rightarrow> message" where
  "metrics_msg i = \<lparr> data_prediction = None, data_confidence = None,
     data_streetlights = None,
     data_metrics = Some (initial_metrics\<lparr>active_power := real i\<rparr>) \<rparr>"

definition evs25 :: "event list" where
  "evs25 = map (\<lambda>i. DashboardMessage rt0 (Parsed (metrics_msg i))) [1 ..< 26]"

section \<open>The alert list\<close>

lemma spread_fields:
  "id_alert (spread a u) = (case u_id u of None \<Rightarrow> id_alert a | Some v \<Rightarrow> v)"
  "type_alert (spread a u) = (case u_type u of None \<Rightarrow> type_alert a | Some v \<Rightarrow> v)"
  "severity (spread a u) = (case u_severity u of None \<Rightarrow> severity a | Some v \<Rightarrow> v)"
  "location (spread a u) = (case u_location u of None \<Rightarrow> location a | Some v \<Rightarrow> v)"
  "coordinates (spread a u) = (case u_coordinates u of None \<Rightarrow> coordinates a | Some v \<Rightarrow> v)"
  "description (spread a u) = (case u_description u of None \<Rightarrow> description a | Some v \<Rightarrow> v)"
  "timestamp (spread a u) = (case u_timestamp u of None \<Rightarrow> timestamp a | Some v \<Rightarrow> v)"
  "status (spread a u) = (case u_status u of None \<Rightarrow> status a | Some v \<Rightarrow> v)"
  "responders (spread a u) = (case u_responders u of None \<Rightarrow> responders a | Some v \<Rightarrow> v)"
  by (simp_all add: spread_def)

lemma updateAlert_length: "length (updateAlert k u as) = length as"
  by (simp add: updateAlert_def)

lemma updateAlert_nth:
  "i < length as \<Longrightarrow>
     updateAlert k u as ! i = (if id_alert (as ! i) = k then spread (as ! i) u else as ! i)"
  by (simp add: updateAlert_def)

lemma updateAlert_unknown:
  "k \<notin> id_alert ` set as \<Longrightarrow> updateAlert k u as = as"
  unfolding updateAlert_def by (induction as) auto

text \<open>
  C8. \<open>updateAlert alertId updates\<close> leaves the list as it is when no alert has the id.
  Otherwise the length and the positions are kept, every alert with another id is
  untouched, and in an alert with the id each key present in \<open>updates\<close> takes the given
  value while each missing key keeps the old one.
\<close>

theorem updateAlert_merges:
  "(k \<notin> id_alert ` set as \<longrightarrow> updateAlert k u as = as)
   \<and> length (updateAlert k u as) = length as
   \<and> (\<forall>i < length as. id_alert (as ! i) \<noteq> k \<longrightarrow> updateAlert k u as ! i = as ! i)
   \<and> (\<forall>i < length as. id_alert (as ! i) = k \<longrightarrow>
        (u_id u = None \<longrightarrow> id_alert (updateAlert k u as ! i) = id_alert (as ! i))
      \<and> (\<forall>v. u_id u = Some v \<longrightarrow> id_alert (updateAlert k u as ! i) = v)
      \<and> (u_type u = None \<longrightarrow> type_alert (updateAlert k u as ! i) = type_alert (as ! i))
      \<and> (\<forall>v. u_type u = Some v \<longrightarrow> type_alert (updateAlert k u as ! i) = v)
      \<and> (u_severity u = None \<longrightarrow> severity (updateAlert k u as ! i) = severity (as ! i))
      \<and> (\<forall>v. u_severity u = Some v \<longrightarrow> severity (updateAlert k u as ! i) = v)
      \<and> (u_location u = None \<longrightarrow> location (updateAlert k u as ! i) = location (as ! i))
      \<and> (\<forall>v. u_location u = Some v \<longrightarrow> location (updateAlert k u as ! i) = v)
      \<and> (u_coordinates u = None \<longrightarrow> coordinates (updateAlert k u as ! i) = coordinates (as ! i))
      \<and> (\<forall>v. u_coordinates u = Some v \<longrightarrow> coordinates (updateAlert k u as ! i) = v)
      \<and> (u_description u = None \<longrightarrow> description (updateAlert k u as ! i) = description (as ! i))
      \<and> (\<forall>v. u_description u = Some v \<longrightarrow> description (updateAlert k u as ! i) = v)
      \<and> (u_timestamp u = None \<longrightarrow> timestamp (updateAlert k u as ! i) = timestamp (as ! i))
      \<and> (\<forall>v. u_timestamp u = Some v \<longrightarrow> timestamp (updateAlert k u as ! i) = v)
      \<and> (u_status u = None \<longrightarrow> status (updateAlert k u as ! i) = status (as ! i))
      \<and> (\<forall>v. u_status u = Some v \<longrightarrow> status (updateAlert k u as ! i) = v)
      \<and> (u_responders u = None \<longrightarrow> responders (updateAlert k u as ! i) = responders (as ! i))
      \<and> (\<forall>v. u_responders u = Some v \<longrightarrow> responders (updateAlert k u as ! i) = v))"
  by (simp add: updateAlert_unknown updateAlert_length updateAlert_nth spread_fields)

theorem updateAlert_merges_witness:
  "updateAlert ''3'' resolve [a1, a2] = [a1, a2]
   \<and> updateAlert ''1'' resolve [a1, a2] ! 1 = a2
   \<and> status (updateAlert ''1'' resolve [a1, a2] ! 0) = Some Resolved
   \<and> responders (updateAlert ''1'' resolve [a1, a2] ! 0) = Some 2"
  using updateAlert_merges [of "''3''" "[a1, a2]" resolve]
    updateAlert_merges [of "''1''" "[a1, a2]" resolve]
  by (simp add: a1_def a2_def resolve_def no_updates_def)

lemma closed_status_iff:
  "(st = Some Resolved \<or> st = None) = (\<not> (st = Some Active \<or> st = Some Investigating))"
proof (cases st)
  case None
  then show ?thesis by simp
next
  case (Some v)
  then show ?thesis by (cases v) simp_all
qed

text \<open>
  C10. \<open>activeIncidents\<close> is the number of positions of the alert list whose status is
  \<open>active\<close> or \<open>investigating\<close>; the alerts that are \<open>resolved\<close> or carry no status
  are exactly the ones left out. It is a function of the list, so it holds after every
  change of it.
\<close>

theorem activeIncidents_counts:
  "activeIncidents as =
     card {i. i < length as \<and> status (as ! i) \<in> {Some Active, Some Investigating}}
   \<and> activeIncidents as + length (filter (\<lambda>a. status a = Some Resolved \<or> status a = None) as)
       = length as"
proof -
  have "activeIncidents as =
     card {i. i < length as \<and> status (as ! i) \<in> {Some Active, Some Investigating}}"
    unfolding activeIncidents_def by (simp add: length_filter_conv_card)
  moreover have "activeIncidents as
       + length (filter (\<lambda>a. status a = Some Resolved \<or> status a = None) as) = length as"
    unfolding activeIncidents_def closed_status_iff by (rule sum_length_filter_compl)
  ultimately show ?thesis by simp
qed

section \<open>Stream handlers\<close>




lemma addAlert_eq: "addAlert a prev = a # take 19 prev"
  by (simp add: addAlert_def slice0_def)

lemma take19_short: "length prev < 20 \<Longrightarrow> take 19 prev = prev"
  by simp

lemma take19_full: "length prev = 20 \<Longrightarrow> take 19 prev = butlast prev"
  by (simp add: butlast_conv_take)




text \<open>
  C5. On a payload that does not parse, the handler of \<open>EmergencyAlerts\<close> logs a warning
  and changes nothing else, while the handler of \<open>Dashboard\<close>, which calls \<open>JSON.parse\<close>
  outside any \<open>try\<close>, ends with the \<open>SyntaxError\<close>.
\<close>

theorem malformed_payload:
  "dashboard_onmessage cur rt Malformed s = Inl SyntaxError
   \<and> alerts_onmessage cur rt Malformed s
       = s\<lparr>console := console s @ [Warn ''Failed to parse SSE event'']\<rparr>"
  by (simp add: dashboard_onmessage_def alerts_onmessage_def)

lemma push_metrics_fields:
  "streetlights (push_metrics rt m s) = streetlights s"
  "metrics (push_metrics rt m s) = m"
  "energySavings (push_metrics rt m s) = savings_vs_100 m"
  "alerts (push_metrics rt m s) = alerts s"
  by (simp_all add: push_metrics_def setMetrics_def setEnergySavings_def)

lemma push_metrics_histories:
  "powerHistory (push_metrics rt m s) = append_point 20 (power_point_of (rt, m)) (powerHistory s)"
  "savingsHistory (push_metrics rt m s)
     = append_point 20 (savings_point_of (rt, m)) (savingsHistory s)"
  "occupancyHistory (push_metrics rt m s)
     = append_point 50 (occupancy_point_of (rt, m)) (occupancyHistory s)"
  by (simp_all add: push_metrics_def setMetrics_def setEnergySavings_def)

lemma dashboard_onmessage_parsed:
  "\<exists>s'. dashboard_onmessage cur rt (Parsed d) s = Inr s'
     \<and> streetlights s' = (case data_streetlights d of None \<Rightarrow> streetlights s | Some ls \<Rightarrow> ls)
     \<and> metrics s' = (case data_metrics d of None \<Rightarrow> metrics s | Some m \<Rightarrow> m)
     \<and> energySavings s' = (case data_metrics d of None \<Rightarrow> energySavings s | Some m \<Rightarrow> savings_vs_100 m)"
  by (simp add: dashboard_onmessage_def Let_def push_metrics_fields setStreetlights_def
      split: option.splits)

lemma step_dashboard_parsed:
  "streetlights (step s (DashboardMessage rt (Parsed d)))
     = (case data_streetlights d of None \<Rightarrow> streetlights s | Some ls \<Rightarrow> ls)"
  "metrics (step s (DashboardMessage rt (Parsed d)))
     = (case data_metrics d of None \<Rightarrow> metrics s | Some m \<Rightarrow> m)"
  "energySavings (step s (DashboardMessage rt (Parsed d)))
     = (case data_metrics d of None \<Rightarrow> energySavings s | Some m \<Rightarrow> savings_vs_100 m)"
  using dashboard_onmessage_parsed [of "alerts_closure s" rt d s] by auto

text \<open>
  C9. \<open>setStreetlights\<close> replaces the stored list: applying it twice with the same list is
  the same as applying it once, and afterwards the stored entities are exactly those of
  the list given, so an entity that the new snapshot omits is gone. The same holds for the
  stream handler whenever the message carries \<open>streetlights\<close>.
\<close>

theorem snapshot_replaces_streetlights:
  "setStreetlights ls (setStreetlights ls s) = setStreetlights ls s
   \<and> streetlights (setStreetlights ls s) = ls
   \<and> set (streetlights (setStreetlights ls s)) = set ls
   \<and> (data_streetlights d = Some ls \<longrightarrow>
        dashboard_onmessage cur rt (Parsed d) s \<noteq> Inl SyntaxError
        \<and> streetlights (step s (DashboardMessage rt (Parsed d))) = ls
        \<and> streetlights (step (step s (DashboardMessage rt (Parsed d)))
              (DashboardMessage rt' (Parsed d))) = ls)"
proof -
  have "dashboard_onmessage cur rt (Parsed d) s \<noteq> Inl SyntaxError"
    by (simp add: dashboard_onmessage_def Let_def)
  then show ?thesis
    by (simp add: setStreetlights_def step_dashboard_parsed del: step.simps)
qed

theorem snapshot_replaces_streetlights_witness:
  "streetlights (step (step initial (DashboardMessage rt0 (Parsed overbright)))
       (DashboardMessage rt0 (Parsed snapshot2))) = lights2
   \<and> streetlights (step (step (step initial (DashboardMessage rt0 (Parsed overbright)))
       (DashboardMessage rt0 (Parsed snapshot2))) (DashboardMessage rt0 (Parsed snapshot2))) = lights2"
proof -
  have d: "data_streetlights snapshot2 = Some lights2" by (simp add: snapshot2_def)
  from snapshot_replaces_streetlights
    [of lights2 "step initial (DashboardMessage rt0 (Parsed overbright))" snapshot2 "[]" rt0 rt0] d
  show ?thesis by blast
qed

text \<open>
  C6 (as the code has it). A message that parses is stored as received: the streetlights
  and the metrics of the state are those of the message, with no clamping, so the stored
  brightness values lie within \<open>[0, 100]\<close> exactly when the received ones do.
\<close>

theorem snapshot_stored_as_received:
  "dashboard_onmessage cur rt (Parsed d) s \<noteq> Inl SyntaxError
   \<and> (data_streetlights d = Some ls \<longrightarrow>
         streetlights (step s (DashboardMessage rt (Parsed d))) = ls
         \<and> list_all (\<lambda>l. 0 \<le> brightness l \<and> brightness l \<le> 100)
               (streetlights (step s (DashboardMessage rt (Parsed d))))
             = list_all (\<lambda>l. 0 \<le> brightness l \<and> brightness l \<le> 100) ls)
   \<and> (data_metrics d = Some m \<longrightarrow>
         metrics (step s (DashboardMessage rt (Parsed d))) = m
         \<and> energySavings (step s (DashboardMessage rt (Parsed d))) = savings_vs_100 m)"
proof -
  have "dashboard_onmessage cur rt (Parsed d) s \<noteq> Inl SyntaxError"
    by (simp add: dashboard_onmessage_def Let_def)
  then show ?thesis
    by (simp add: step_dashboard_parsed del: step.simps)
qed

theorem snapshot_stored_as_received_witness:
  "streetlights (step initial (DashboardMessage rt0 (Parsed snapshot2))) = lights2
   \<and> list_all (\<lambda>l. 0 \<le> brightness l \<and> brightness l \<le> 100)
        (streetlights (step initial (DashboardMessage rt0 (Parsed snapshot2))))
   \<and> savings_vs_100 (metrics (step initial (DashboardMessage rt0 (Parsed snapshot2)))) = 42"
proof -
  have d: "data_streetlights snapshot2 = Some lights2"
    and m: "data_metrics snapshot2 = Some (initial_metrics\<lparr>savings_vs_100 := 42\<rparr>)"
    by (simp_all add: snapshot2_def)
  have "list_all (\<lambda>l. 0 \<le> brightness l \<and> brightness l \<le> 100) lights2"
    by (simp add: lights2_def)
  with snapshot_stored_as_received
    [of "[]" rt0 snapshot2 initial lights2 "initial_metrics\<lparr>savings_vs_100 := 42\<rparr>"] d m
  show ?thesis by simp
qed

text \<open>
  C6 as stated fails: a brightness of 150 and a savings percentage of 250 are stored
  unchanged.
\<close>

theorem brightness_stored_unclamped:
  "brightness (hd (streetlights (step initial (DashboardMessage rt0 (Parsed overbright))))) = 150
   \<and> savings_vs_100 (metrics (step initial (DashboardMessage rt0 (Parsed overbright)))) = 250
   \<and> brightness_dist (metrics (step initial (DashboardMessage rt0 (Parsed overbright)))) = [150]"
  by (simp add: dashboard_onmessage_def overbright_def Let_def push_metrics_fields
      setStreetlights_def)


section \<open>History arrays\<close>

lemma slice_last_length: "0 < C \<Longrightarrow> length (slice_last C xs) \<le> C"
  by (simp add: slice_last_def)

lemma append_point_length: "0 < C \<Longrightarrow> length (append_point C pt prev) \<le> C"
  by (simp add: append_point_def slice_last_length)

lemma slice_last_append1:
  assumes "0 < C"
  shows "slice_last C (slice_last C xs @ [p]) = slice_last C (xs @ [p])"
proof (cases "length xs < C")
  case True
  with assms show ?thesis by (simp add: slice_last_def)
next
  case False
  with assms have "Suc (length xs) - C = Suc (length xs - C)" by arith
  with assms False show ?thesis by (simp add: slice_last_def)
qed

lemma foldl_append_point_snoc:
  "0 < C \<Longrightarrow>
     foldl (\<lambda>b p. append_point C p b) b0 (ps @ [p]) = slice_last C (b0 @ ps @ [p])"
proof (induction ps arbitrary: p rule: rev_induct)
  case Nil
  then show ?case by (simp add: append_point_def)
next
  case (snoc q ps)
  have "foldl (\<lambda>b p. append_point C p b) b0 ((ps @ [q]) @ [p])
        = append_point C p (foldl (\<lambda>b p. append_point C p b) b0 (ps @ [q]))"
    by simp
  also have "\<dots> = slice_last C (slice_last C (b0 @ ps @ [q]) @ [p])"
    using snoc by (simp add: append_point_def)
  also have "\<dots> = slice_last C ((b0 @ ps @ [q]) @ [p])"
    using snoc.prems by (rule slice_last_append1)
  finally show ?case by simp
qed

lemma foldl_append_point:
  assumes "0 < C" and "length b0 \<le> C"
  shows "foldl (\<lambda>b p. append_point C p b) b0 ps = slice_last C (b0 @ ps)"
proof (cases ps rule: rev_cases)
  case Nil
  with assms show ?thesis by (simp add: slice_last_def)
next
  case (snoc qs q)
  show ?thesis unfolding snoc using assms(1) by (rule foldl_append_point_snoc)
qed

lemma slice_last_covers:
  assumes "0 < C" and "C \<le> length ps"
  shows "slice_last C (b0 @ ps) = drop (length ps - C) ps"
  using assms by (simp add: slice_last_def)

lemma append_point_fold:
  assumes "0 < C" and "length b0 \<le> C"
  shows "length (foldl (\<lambda>b p. append_point C p b) b0 ps) \<le> C
         \<and> (C \<le> length ps \<longrightarrow>
              foldl (\<lambda>b p. append_point C p b) b0 ps = drop (length ps - C) ps)"
proof -
  have eq: "foldl (\<lambda>b p. append_point C p b) b0 ps = slice_last C (b0 @ ps)"
    using assms by (rule foldl_append_point)
  have "length (slice_last C (b0 @ ps)) \<le> C"
    using assms(1) by (rule slice_last_length)
  moreover have "C \<le> length ps \<longrightarrow> slice_last C (b0 @ ps) = drop (length ps - C) ps"
    using assms(1) by (simp add: slice_last_covers)
  ultimately show ?thesis unfolding eq by simp
qed

lemma run_snoc: "run s (evs @ [e]) = step (run s evs) e"
  by (simp add: run_def)

lemma pushed_snoc:
  "pushed (evs @ [e]) = pushed evs @ (case metrics_of e of None \<Rightarrow> [] | Some tm \<Rightarrow> [tm])"
  by (simp add: pushed_def map_filter_def split: option.splits)

lemma alerts_onmessage_histories:
  "powerHistory (alerts_onmessage cur rt p s) = powerHistory s"
  "savingsHistory (alerts_onmessage cur rt p s) = savingsHistory s"
  "occupancyHistory (alerts_onmessage cur rt p s) = occupancyHistory s"
  by (simp_all add: alerts_onmessage_def split: payload.splits option.splits)

lemma dashboard_onmessage_histories:
  assumes "dashboard_onmessage cur rt (Parsed d) s = Inr s'"
  shows "powerHistory s' = (case data_metrics d of None \<Rightarrow> powerHistory s
           | Some m \<Rightarrow> append_point 20 (power_point_of (rt, m)) (powerHistory s))"
    and "savingsHistory s' = (case data_metrics d of None \<Rightarrow> savingsHistory s
           | Some m \<Rightarrow> append_point 20 (savings_point_of (rt, m)) (savingsHistory s))"
    and "occupancyHistory s' = (case data_metrics d of None \<Rightarrow> occupancyHistory s
           | Some m \<Rightarrow> append_point 50 (occupancy_point_of (rt, m)) (occupancyHistory s))"
  using assms
  by (auto simp: dashboard_onmessage_def Let_def push_metrics_histories setStreetlights_def
      split: option.splits)

lemma step_histories:
  "powerHistory (step s e) = (case metrics_of e of None \<Rightarrow> powerHistory s
     | Some tm \<Rightarrow> append_point 20 (power_point_of tm) (powerHistory s))"
  "savingsHistory (step s e) = (case metrics_of e of None \<Rightarrow> savingsHistory s
     | Some tm \<Rightarrow> append_point 20 (savings_point_of tm) (savingsHistory s))"
  "occupancyHistory (step s e) = (case metrics_of e of None \<Rightarrow> occupancyHistory s
     | Some tm \<Rightarrow> append_point 50 (occupancy_point_of tm) (occupancyHistory s))"
proof -
  have "powerHistory (step s e) = (case metrics_of e of None \<Rightarrow> powerHistory s
       | Some tm \<Rightarrow> append_point 20 (power_point_of tm) (powerHistory s))
     \<and> savingsHistory (step s e) = (case metrics_of e of None \<Rightarrow> savingsHistory s
       | Some tm \<Rightarrow> append_point 20 (savings_point_of tm) (savingsHistory s))
     \<and> occupancyHistory (step s e) = (case metrics_of e of None \<Rightarrow> occupancyHistory s
       | Some tm \<Rightarrow> append_point 50 (occupancy_point_of tm) (occupancyHistory s))"
  proof (cases e)
    case (AlertsMessage rt p)
    then show ?thesis by (simp add: alerts_onmessage_histories)
  next
    case (DashboardMessage rt p)
    show ?thesis
    proof (cases p)
      case Malformed
      with DashboardMessage show ?thesis by (simp add: dashboard_onmessage_def)
    next
      case (Parsed d)
      obtain s' where s': "dashboard_onmessage (alerts_closure s) rt (Parsed d) s = Inr s'"
        by (simp add: dashboard_onmessage_def Let_def)
      from dashboard_onmessage_histories [OF s'] s' DashboardMessage Parsed
      show ?thesis by (simp split: option.splits)
    qed
  qed simp_all
  then show
    "powerHistory (step s e) = (case metrics_of e of None \<Rightarrow> powerHistory s
       | Some tm \<Rightarrow> append_point 20 (power_point_of tm) (powerHistory s))"
    "savingsHistory (step s e) = (case metrics_of e of None \<Rightarrow> savingsHistory s
       | Some tm \<Rightarrow> append_point 20 (savings_point_of tm) (savingsHistory s))"
    "occupancyHistory (step s e) = (case metrics_of e of None \<Rightarrow> occupancyHistory s
       | Some tm \<Rightarrow> append_point 50 (occupancy_point_of tm) (occupancyHistory s))"
    by simp_all
qed

lemma run_histories:
  "powerHistory (run s evs)
     = foldl (\<lambda>b p. append_point 20 p b) (powerHistory s) (map power_point_of (pushed evs))"
  "savingsHistory (run s evs)
     = foldl (\<lambda>b p. append_point 20 p b) (savingsHistory s) (map savings_point_of (pushed evs))"
  "occupancyHistory (run s evs)
     = foldl (\<lambda>b p. append_point 50 p b) (occupancyHistory s)
         (map occupancy_point_of (pushed evs))"
proof (induction evs rule: rev_induct)
  case Nil
  {
    case 1 show ?case by (simp add: run_def pushed_def map_filter_def)
  next
    case 2 show ?case by (simp add: run_def pushed_def map_filter_def)
  next
    case 3 show ?case by (simp add: run_def pushed_def map_filter_def)
  }
next
  case (snoc e evs)
  {
    case 1 with snoc(1) show ?case
      by (simp add: run_snoc pushed_snoc step_histories del: step.simps split: option.splits)
  next
    case 2 with snoc(2) show ?case
      by (simp add: run_snoc pushed_snoc step_histories del: step.simps split: option.splits)
  next
    case 3 with snoc(3) show ?case
      by (simp add: run_snoc pushed_snoc step_histories del: step.simps split: option.splits)
  }
qed

text \<open>
  C4. Along every sequence of events, each message that carries \<open>metrics\<close> appends one
  point to each of the three history arrays of \<open>Dashboard\<close> and nothing else touches
  them. The power and the savings array never grow beyond 20 points and the occupancy
  array never beyond 50; once 20 (50) or more points have been pushed, the array holds
  exactly the last 20 (50) of them, oldest first. After 25 metrics messages the power
  array holds the points of the messages 6 to 25.
\<close>

theorem history_holds_last_points:
  assumes "length (powerHistory s) \<le> 20" and "length (savingsHistory s) \<le> 20"
    and "length (occupancyHistory s) \<le> 50"
  shows
    "length (powerHistory (run s evs)) \<le> 20
     \<and> length (savingsHistory (run s evs)) \<le> 20
     \<and> length (occupancyHistory (run s evs)) \<le> 50
     \<and> (20 \<le> length (pushed evs) \<longrightarrow>
          powerHistory (run s evs)
            = map power_point_of (drop (length (pushed evs) - 20) (pushed evs))
          \<and> savingsHistory (run s evs)
            = map savings_point_of (drop (length (pushed evs) - 20) (pushed evs)))
     \<and> (50 \<le> length (pushed evs) \<longrightarrow>
          occupancyHistory (run s evs)
            = map occupancy_point_of (drop (length (pushed evs) - 50) (pushed evs)))"
proof -
  have p: "(0::nat) < 20" and q: "(0::nat) < 50" by simp_all
  note pw = append_point_fold [OF p assms(1), of "map power_point_of (pushed evs)"]
  note sv = append_point_fold [OF p assms(2), of "map savings_point_of (pushed evs)"]
  note oc = append_point_fold [OF q assms(3), of "map occupancy_point_of (pushed evs)"]
  from pw sv oc show ?thesis
    by (simp add: run_histories drop_map)
qed

lemma pushed_evs25:
  "pushed evs25 = map (\<lambda>i. (rt0, initial_metrics\<lparr>active_power := real i\<rparr>)) [1 ..< 26]"
  unfolding pushed_def evs25_def map_filter_def
  by (simp add: filter_map o_def metrics_msg_def)

theorem history_holds_last_points_witness:
  "length (powerHistory (run initial evs25)) = 20
   \<and> map active (powerHistory (run initial evs25)) = map real [6 ..< 26]
   \<and> length (occupancyHistory (run initial evs25)) \<le> 50"
proof -
  have i: "length (powerHistory initial) \<le> 20" "length (savingsHistory initial) \<le> 20"
    "length (occupancyHistory initial) \<le> 50"
    by (simp_all add: initial_def)
  have n: "20 \<le> length (pushed evs25)" by (simp add: pushed_evs25)
  from history_holds_last_points [OF i, of evs25] n
  have "powerHistory (run initial evs25)
          = map power_point_of (drop (length (pushed evs25) - 20) (pushed evs25))"
    and "length (occupancyHistory (run initial evs25)) \<le> 50"
    by blast+
  then show ?thesis
    by (simp add: pushed_evs25 drop_map drop_upt power_point_of_def o_def)
qed

section \<open>Alert ids\<close>

lemma digit_char_inj:
  assumes "d < 10" and "e < 10" and "digit_char d = digit_char e"
  shows "d = e"
proof -
  have "distinct ''0123456789''" by simp
  moreover have "d < length ''0123456789''" and "e < length ''0123456789''"
    using assms by simp_all
  ultimately have "(''0123456789'' ! d = ''0123456789'' ! e) = (d = e)"
    by (rule nth_eq_iff_index_eq)
  with assms(3) show ?thesis by (simp add: digit_char_def)
qed

lemma digit_char_in: "d < 10 \<Longrightarrow> digit_char d \<in> set ''0123456789''"
  unfolding digit_char_def by (rule nth_mem) simp

lemma digits_nonempty: "digits n \<noteq> []"
  by (subst digits.simps) simp

lemma digits_small: "n < 10 \<Longrightarrow> digits n = [digit_char n]"
  by (subst digits.simps) simp

lemma digits_large: "\<not> n < 10 \<Longrightarrow> digits n = digits (n div 10) @ [digit_char (n mod 10)]"
  by (subst digits.simps) simp

lemma digits_chars: "set (digits n) \<subseteq> set ''0123456789''"
proof (induction n rule: digits.induct)
  case (1 n)
  show ?case
  proof (cases "n < 10")
    case True
    then show ?thesis using digit_char_in [of n] by (simp add: digits_small)
  next
    case False
    have "n mod 10 < 10" by simp
    then have "digit_char (n mod 10) \<in> set ''0123456789''" by (rule digit_char_in)
    with False 1 show ?thesis by (simp add: digits_large)
  qed
qed

lemma digits_inj: "digits n = digits m \<Longrightarrow> n = m"
proof (induction n arbitrary: m rule: digits.induct)
  case (1 n)
  show ?case
  proof (cases "n < 10")
    case True
    note n = this
    show ?thesis
    proof (cases "m < 10")
      case True
      with n 1(2) show ?thesis by (simp add: digits_small digit_char_inj)
    next
      case False
      with n 1(2) digits_nonempty [of "m div 10"] show ?thesis
        by (simp add: digits_small digits_large)
    qed
  next
    case False
    note n = this
    show ?thesis
    proof (cases "m < 10")
      case True
      with n 1(2) digits_nonempty [of "n div 10"] show ?thesis
        by (simp add: digits_small digits_large)
    next
      case False
      with n 1(2) have eq: "digits (n div 10) = digits (m div 10)"
        and c: "digit_char (n mod 10) = digit_char (m mod 10)"
        by (simp_all add: digits_large)
      from 1(1) [OF n eq] have "n div 10 = m div 10" .
      moreover from c have "n mod 10 = m mod 10"
        by (intro digit_char_inj) simp_all
      ultimately show ?thesis by (metis div_mult_mod_eq)
    qed
  qed
qed

lemma minus_not_digit: "CHR ''-'' # cs \<noteq> digits n"
proof
  assume "CHR ''-'' # cs = digits n"
  then have "CHR ''-'' \<in> set (digits n)" by (metis list.set_intros(1))
  with digits_chars [of n] show False by auto
qed

lemma toString_eq_iff: "(toString i = toString j) = (i = j)"
proof
  assume eq: "toString i = toString j"
  show "i = j"
  proof (cases "i < 0")
    case True
    note i = this
    show ?thesis
    proof (cases "j < 0")
      case True
      with i eq have "digits (nat (- i)) = digits (nat (- j))" by (simp add: toString_def)
      then have "nat (- i) = nat (- j)" by (rule digits_inj)
      with i True show ?thesis by simp
    next
      case False
      with i eq minus_not_digit show ?thesis by (simp add: toString_def)
    qed
  next
    case False
    note i = this
    show ?thesis
    proof (cases "j < 0")
      case True
      with i eq minus_not_digit [of "digits (nat (- j))" "nat i"] show ?thesis
        by (simp add: toString_def)
    next
      case False
      with i eq have "digits (nat i) = digits (nat j)" by (simp add: toString_def)
      then have "nat i = nat j" by (rule digits_inj)
      with i False show ?thesis by simp
    qed
  qed
qed simp

lemma toString_sample: "toString 1700000000000 = ''1700000000000''"
  by (simp add: toString_def digits_small digits_large digit_char_def)

lemma toString_sample2: "toString (- 42) = ''-42''"
  by (simp add: toString_def digits_small digits_large digit_char_def)



text \<open>
  C7 (as the code has it). The id of a created alert is the decimal rendering of
  \<open>Date.now()\<close>, which is injective: two created alerts have the same id exactly when
  they were created at the same millisecond value.
\<close>

theorem alert_id_is_creation_time:
  "(id_alert (accident_alert rt c) = id_alert (accident_alert rt' c')) = (now rt = now rt')
   \<and> (id_alert (detected_alert rt) = id_alert (detected_alert rt')) = (now rt = now rt')
   \<and> (id_alert (accident_alert rt c) = id_alert (detected_alert rt')) = (now rt = now rt')"
  by (simp add: accident_alert_def detected_alert_def toString_eq_iff)

text \<open>
  C7 as stated fails: two alerts created at the same value of \<open>Date.now()\<close> are both in
  the list with the same id.
\<close>

theorem alert_ids_collide:
  "map id_alert (alerts (run initial
      [AlertsMessage rt0 (Parsed accident95),
       AlertsEffect,
       SendResponseClicked (accident_alert rt0 95),
       AlertsEffect,
       AlertsMessage (rt0\<lparr>random_location := 0.77\<rparr>) (Parsed accident95)]))
   = [''1700000000000'', ''1700000000000'']"
  by (simp add: run_def alerts_onmessage_def addAlert_eq already_def sendResponse_optimistic_def
      updateAlert_def spread_def no_updates_def accident_alert_def accident95_def rt0_def
      initial_def toString_sample)

section \<open>Deduplication of accident alerts\<close>

















section \<open>Dispatch\<close>

lemma spread_status:
  "spread b (no_updates\<lparr>u_status := Some st\<rparr>) = b\<lparr>status := st\<rparr>"
  by (simp add: spread_def no_updates_def)

lemma spread_status_responders:
  "spread b (no_updates\<lparr>u_status := Some st, u_responders := Some r\<rparr>)
     = b\<lparr>status := st, responders := r\<rparr>"
  by (simp add: spread_def no_updates_def)

lemma sendResponse_optimistic_map:
  "sendResponse_optimistic a prev
     = map (\<lambda>b. if id_alert b = id_alert a
                then b\<lparr>status := Some Investigating, responders := Some (seen_responders a + 1)\<rparr>
                else b) prev"
proof -
  have "(case responders a of None \<Rightarrow> 0 | Some r \<Rightarrow> if r = 0 then 0 else r) = seen_responders a"
    by (simp add: seen_responders_def split: option.splits)
  then show ?thesis
    by (simp add: sendResponse_optimistic_def updateAlert_def spread_status_responders)
qed

lemma respond_settled_map:
  "respond_settled a res prev
     = map (\<lambda>b. if id_alert b = id_alert a
                then b\<lparr>status := Some (if acknowledged res then Investigating else Active)\<rparr>
                else b) prev"
  by (cases res) (simp_all add: respond_settled_def updateAlert_def spread_status)

lemma sendResponse_map:
  "sendResponse a res prev
     = map (\<lambda>b. if id_alert b = id_alert a
                then b\<lparr>status := Some (if acknowledged res then Investigating else Active),
                       responders := Some (seen_responders a + 1)\<rparr>
                else b) prev"
  by (simp add: sendResponse_def respond_settled_map sendResponse_optimistic_map)

text \<open>
  C2 (as the code has it). For the alert \<open>a\<close> of a rendered card: ``Send Response''
  (action \<open>dispatch\<close>) first sets the status \<open>investigating\<close> and the responders to one
  more than the card shows; an \<open>ok\<close> answer keeps \<open>investigating\<close>, anything else
  (rejected request, body that is not JSON, another status) sets \<open>active\<close> and keeps the
  raised responders, all failures ending in the same list. ``Request Ambulance'' (action
  \<open>ambulance\<close>) changes nothing before the request and never touches the responders; it
  ends \<open>investigating\<close> on \<open>ok\<close> and \<open>active\<close> otherwise. Alerts with another id are
  untouched.
\<close>

theorem dispatch_outcomes:
  assumes "i < length prev" and "prev ! i = a"
  shows
    "sendResponse_optimistic a prev ! i
       = a\<lparr>status := Some Investigating, responders := Some (seen_responders a + 1)\<rparr>
     \<and> dispatch DispatchAction a res prev
         = respond_settled a res (sendResponse_optimistic a prev)
     \<and> (acknowledged res \<longrightarrow> dispatch DispatchAction a res prev ! i
           = a\<lparr>status := Some Investigating, responders := Some (seen_responders a + 1)\<rparr>)
     \<and> (\<not> acknowledged res \<longrightarrow> dispatch DispatchAction a res prev ! i
           = a\<lparr>status := Some Active, responders := Some (seen_responders a + 1)\<rparr>)
     \<and> (\<not> acknowledged res \<longrightarrow>
           dispatch DispatchAction a res prev = dispatch DispatchAction a Rejected prev)
     \<and> (acknowledged res \<longrightarrow> dispatch AmbulanceAction a res prev ! i
           = a\<lparr>status := Some Investigating\<rparr>)
     \<and> (\<not> acknowledged res \<longrightarrow> dispatch AmbulanceAction a res prev ! i
           = a\<lparr>status := Some Active\<rparr>)
     \<and> (\<not> acknowledged res \<longrightarrow>
           dispatch AmbulanceAction a res prev = dispatch AmbulanceAction a Rejected prev)
     \<and> (\<forall>j < length prev. id_alert (prev ! j) \<noteq> id_alert a \<longrightarrow>
           dispatch DispatchAction a res prev ! j = prev ! j
           \<and> dispatch AmbulanceAction a res prev ! j = prev ! j)"
  using assms
  by (simp add: sendResponse_map sendResponse_optimistic_map respond_settled_map
      requestAmbulance_def sendResponse_def [symmetric])

theorem dispatch_outcomes_witness:
  "sendResponse_optimistic a1 [a1, a2] ! 0
     = a1\<lparr>status := Some Investigating, responders := Some 3\<rparr>
   \<and> dispatch DispatchAction a1 (Json (Some ''ok'')) [a1, a2] ! 0
       = a1\<lparr>status := Some Investigating, responders := Some 3\<rparr>
   \<and> dispatch DispatchAction a1 (Json (Some ''error'')) [a1, a2] ! 0
       = a1\<lparr>status := Some Active, responders := Some 3\<rparr>
   \<and> dispatch DispatchAction a1 (Json (Some ''error'')) [a1, a2]
       = dispatch DispatchAction a1 Rejected [a1, a2]
   \<and> dispatch DispatchAction a1 Rejected [a1, a2] ! 1 = a2
   \<and> dispatch AmbulanceAction a1 Rejected [a1, a2] ! 0 = a1\<lparr>status := Some Active\<rparr>"
proof -
  have i: "0 < length [a1, a2]" "[a1, a2] ! 0 = a1" by simp_all
  have r: "seen_responders a1 + 1 = 3" by (simp add: seen_responders_def a1_def)
  have n: "1 < length [a1, a2]" "id_alert ([a1, a2] ! 1) \<noteq> id_alert a1" "[a1, a2] ! 1 = a2"
    by (simp_all add: a1_def a2_def)
  have k: "acknowledged (Json (Some ''ok''))" "\<not> acknowledged (Json (Some ''error''))"
    "\<not> acknowledged Rejected"
    by simp_all
  from dispatch_outcomes [OF i, of "Json (Some ''ok'')"] k r
  have 1: "sendResponse_optimistic a1 [a1, a2] ! 0
     = a1\<lparr>status := Some Investigating, responders := Some 3\<rparr>"
    and 2: "dispatch DispatchAction a1 (Json (Some ''ok'')) [a1, a2] ! 0
       = a1\<lparr>status := Some Investigating, responders := Some 3\<rparr>"
    by metis+
  from dispatch_outcomes [OF i, of "Json (Some ''error'')"] k r
  have 3: "dispatch DispatchAction a1 (Json (Some ''error'')) [a1, a2] ! 0
       = a1\<lparr>status := Some Active, responders := Some 3\<rparr>"
    and 4: "dispatch DispatchAction a1 (Json (Some ''error'')) [a1, a2]
       = dispatch DispatchAction a1 Rejected [a1, a2]"
    by metis+
  from dispatch_outcomes [OF i, of Rejected] k n
  have 5: "dispatch DispatchAction a1 Rejected [a1, a2] ! 1 = a2"
    and 6: "dispatch AmbulanceAction a1 Rejected [a1, a2] ! 0 = a1\<lparr>status := Some Active\<rparr>"
    by metis+
  from 1 2 3 4 5 6 show ?thesis by blast
qed

text \<open>
  C2 as stated fails for the action \<open>ambulance\<close>: the responders count of the alert is
  the same after the call, whether the request succeeds or not.
\<close>

theorem ambulance_keeps_responders:
  "dispatch AmbulanceAction a1 Rejected [a1] = [a1]
   \<and> dispatch AmbulanceAction a1 (Json (Some ''ok'')) [a1] = [a1\<lparr>status := Some Investigating\<rparr>]
   \<and> responders a1 = Some 2"
  by (simp add: requestAmbulance_def respond_settled_map a1_def)


end
